theory Spec2Isabelle
  imports Complex_Main
begin

section \<open>Python primitives used by the clock programs\<close>

text \<open>
  The two programs (\<open>main.py\<close>, the DCF77 radio decoder, and \<open>webtime.py\<close>, the
  network-synchronised stepper clock) are Python 3 scripts for a microcontroller board.
  Their state lives in text files and their arithmetic is done on values parsed out of
  strings, so the embedding starts with the string operations they call: \<open>str.strip\<close>,
  \<open>str.split\<close>, \<open>str.lower\<close>, \<open>str\<close> and \<open>int\<close>, as Python 3 defines them. A
  string is a list of characters with code points below 256. Exceptions are values of
  type \<open>exn\<close>.
\<close>

datatype exn = OSError | ValueError

text \<open>The tab character, written \<open>"\t"\<close> in the source.\<close>

definition TAB :: char where
  "TAB = CHR 0x09"

text \<open>
  Whitespace as \<open>int()\<close> skips it around a number: the space, \<open>\t \n \v \f \r\<close>, and
  the two characters of that kind above 127, next line (0x85) and no-break space (0xA0).
  \<open>str.strip()\<close> removes these and the four separator controls 0x1C to 0x1F as well
  (the characters for which \<open>str.isspace\<close> holds).
\<close>

definition int_space :: "char \<Rightarrow> bool" where
  "int_space c = (c = CHR '' '' \<or> c = CHR 0x09 \<or> c = CHR 0x0A \<or> c = CHR 0x0B
                  \<or> c = CHR 0x0C \<or> c = CHR 0x0D \<or> c = CHR 0x85 \<or> c = CHR 0xA0)"

definition isspace :: "char \<Rightarrow> bool" where
  "isspace c = (int_space c \<or> c = CHR 0x1C \<or> c = CHR 0x1D \<or> c = CHR 0x1E \<or> c = CHR 0x1F)"

definition strip :: "string \<Rightarrow> string" where
  "strip s = rev (dropWhile isspace (rev (dropWhile isspace s)))"

text \<open>
  \<open>s.split(sep)\<close> for a one-character separator: every occurrence of the separator
  ends a piece, so \<open>n\<close> separators give \<open>n + 1\<close> pieces, empty ones included.
\<close>

fun split :: "char \<Rightarrow> string \<Rightarrow> string list" where
  "split sep [] = [[]]"
| "split sep (c # cs) =
     (if c = sep then [] # split sep cs
      else (case split sep cs of
              [] \<Rightarrow> [[c]]
            | p # ps \<Rightarrow> (c # p) # ps))"

text \<open>
  \<open>s.lower()\<close>: the letters A to Z, and the capital letters 0xC0 to 0xDE (without the
  multiplication sign 0xD7) above 127, each 32 below its small letter.
\<close>

definition upper_letters :: string where
  "upper_letters =
     ''ABCDEFGHIJKLMNOPQRSTUVWXYZ''
       @ [CHR 0xC0, CHR 0xC1, CHR 0xC2, CHR 0xC3, CHR 0xC4, CHR 0xC5, CHR 0xC6, CHR 0xC7,
          CHR 0xC8, CHR 0xC9, CHR 0xCA, CHR 0xCB, CHR 0xCC, CHR 0xCD, CHR 0xCE, CHR 0xCF,
          CHR 0xD0, CHR 0xD1, CHR 0xD2, CHR 0xD3, CHR 0xD4, CHR 0xD5, CHR 0xD6,
          CHR 0xD8, CHR 0xD9, CHR 0xDA, CHR 0xDB, CHR 0xDC, CHR 0xDD, CHR 0xDE]"

definition lower_letters :: string where
  "lower_letters =
     ''abcdefghijklmnopqrstuvwxyz''
       @ [CHR 0xE0, CHR 0xE1, CHR 0xE2, CHR 0xE3, CHR 0xE4, CHR 0xE5, CHR 0xE6, CHR 0xE7,
          CHR 0xE8, CHR 0xE9, CHR 0xEA, CHR 0xEB, CHR 0xEC, CHR 0xED, CHR 0xEE, CHR 0xEF,
          CHR 0xF0, CHR 0xF1, CHR 0xF2, CHR 0xF3, CHR 0xF4, CHR 0xF5, CHR 0xF6,
          CHR 0xF8, CHR 0xF9, CHR 0xFA, CHR 0xFB, CHR 0xFC, CHR 0xFD, CHR 0xFE]"

definition lower_char :: "char \<Rightarrow> char" where
  "lower_char c =
     (case map_of (zip upper_letters lower_letters) c of
        None \<Rightarrow> c
      | Some l \<Rightarrow> l)"

definition lower :: "string \<Rightarrow> string" where
  "lower s = map lower_char s"

text \<open>\<open>str(n)\<close> for an integer: decimal digits, a minus sign for negative numbers.\<close>

definition digit_char :: "nat \<Rightarrow> char" where
  "digit_char d = ''0123456789'' ! d"

fun str_nat :: "nat \<Rightarrow> string" where
  "str_nat n = (if n < 10 then [digit_char n] else str_nat (n div 10) @ [digit_char (n mod 10)])"

declare str_nat.simps [simp del]

definition str_int :: "int \<Rightarrow> string" where
  "str_int i = (if i < 0 then CHR ''-'' # str_nat (nat (- i)) else str_nat (nat i))"

text \<open>\<open>str(b)\<close> and the f-string \<open>{b}\<close> for a boolean.\<close>

definition str_bool :: "bool \<Rightarrow> string" where
  "str_bool b = (if b then ''True'' else ''False'')"

text \<open>
  \<open>int(s)\<close>: the whitespace around the number is dropped, one sign is allowed, and
  what remains must be decimal digits, where a single underscore may stand between two
  digits (\<open>1_0\<close> is ten; \<open>_1\<close>, \<open>1_\<close> and \<open>1__0\<close> are not numbers). Anything else
  raises \<open>ValueError\<close>. \<open>digits_val\<close> reads the digits from left to right; its flag
  says whether the character before was a digit.
\<close>

definition digit_val :: "char \<Rightarrow> nat option" where
  "digit_val c = map_of (zip ''0123456789'' [0, 1, 2, 3, 4, 5, 6, 7, 8, 9]) c"

fun digits_val :: "nat \<Rightarrow> bool \<Rightarrow> string \<Rightarrow> nat option" where
  "digits_val acc after_digit [] = (if after_digit then Some acc else None)"
| "digits_val acc after_digit (c # cs) =
     (if c = CHR ''_'' then
        (if after_digit then digits_val acc False cs else None)
      else
        (case digit_val c of
           None \<Rightarrow> None
         | Some d \<Rightarrow> digits_val (10 * acc + d) True cs))"

definition nat_of_str :: "string \<Rightarrow> nat option" where
  "nat_of_str s = digits_val 0 False s"

definition int_strip :: "string \<Rightarrow> string" where
  "int_strip s = rev (dropWhile int_space (rev (dropWhile int_space s)))"

definition int_of_str :: "string \<Rightarrow> exn + int" where
  "int_of_str s =
     (case int_strip s of
        [] \<Rightarrow> Inl ValueError
      | c # cs \<Rightarrow>
          if c = CHR ''-'' then
            (case nat_of_str cs of None \<Rightarrow> Inl ValueError | Some n \<Rightarrow> Inr (- int n))
          else if c = CHR ''+'' then
            (case nat_of_str cs of None \<Rightarrow> Inl ValueError | Some n \<Rightarrow> Inr (int n))
          else
            (case nat_of_str (c # cs) of None \<Rightarrow> Inl ValueError | Some n \<Rightarrow> Inr (int n)))"

section \<open>webtime.py: the stepper clock synchronisation controller\<close>

subsection \<open>The world: two text files, two output pins\<close>

text \<open>
  The controller keeps its state in \<open>lastpulseat.txt\<close> (the persisted pulse state:
  \<open>HH:MM\<close>, phase a, phase b, separated by tabs) and reads its baseline from
  \<open>firstruntime.txt\<close>. It acts on the clock through the pins \<open>clock1\<close> and
  \<open>clock2\<close>. The world records the files, for each file name whether the storage lets
  it be opened for writing (and removed), and the trace of everything done to the pins
  and the files, oldest event first. Prints, sleeps and the indicator LED are left out.
\<close>

datatype event =
    Drive bool bool
  | Release
  | Write string string
  | Remove string

record world =
  files :: "string \<Rightarrow> string option"
  writable :: "string \<Rightarrow> bool"
  trace :: "event list"

definition emit :: "event \<Rightarrow> world \<Rightarrow> world" where
  "emit e w = w\<lparr>trace := trace w @ [e]\<rparr>"

text \<open>\<open>open(name).read()\<close>: \<open>OSError\<close> when the file does not exist.\<close>

definition read_file :: "string \<Rightarrow> world \<Rightarrow> exn + string" where
  "read_file name w = (case files w name of None \<Rightarrow> Inl OSError | Some s \<Rightarrow> Inr s)"

text \<open>
  \<open>with open(name, "w") as f: f.write(s)\<close>: \<open>None\<close> when the storage refuses to open
  the file (the source's \<open>except Exception\<close> branches), and the file is then left as
  it was; the updated world otherwise.
\<close>

definition write_file :: "string \<Rightarrow> string \<Rightarrow> world \<Rightarrow> world option" where
  "write_file name s w =
     (if writable w name then Some (emit (Write name s) (w\<lparr>files := (files w)(name := Some s)\<rparr>))
      else None)"

text \<open>A write whose failure is caught and only logged: the world is then unchanged.\<close>

definition write_file_logged :: "string \<Rightarrow> string \<Rightarrow> world \<Rightarrow> world" where
  "write_file_logged name s w = (case write_file name s w of None \<Rightarrow> w | Some w' \<Rightarrow> w')"


subsection \<open>Configuration and helpers\<close>

definition pulsefrequency :: int where
  "pulsefrequency = 60"

text \<open>\<open>twodigits(n)\<close> of webtime.py: \<open>s = str(n); s if len(s) == 2 else "0" + s\<close>.\<close>

definition twodigits :: "int \<Rightarrow> string" where
  "twodigits n = (let s = str_int n in if length s = 2 then s else ''0'' @ s)"

text \<open>The f-string \<open>f"{twodigits(h)}:{twodigits(m)}"\<close>.\<close>

definition hm_string :: "int \<Rightarrow> int \<Rightarrow> string" where
  "hm_string h m = twodigits h @ '':'' @ twodigits m"

definition pulsessince12 :: "string \<Rightarrow> exn + int" where
  "pulsessince12 timestr =
     (let parts = split CHR '':'' timestr in
      if length parts < 2 then Inl ValueError
      else (case int_of_str (parts ! 0) of
              Inl e \<Rightarrow> Inl e
            | Inr h \<Rightarrow>
                (case int_of_str (parts ! 1) of
                   Inl e \<Rightarrow> Inl e
                 | Inr m \<Rightarrow>
                     let seconds = (h mod 12) * 3600 + m * 60
                     in Inr (seconds div pulsefrequency))))"

text \<open>
  \<open>h, m = map(int, last_hm.split(":"))\<close>: unpacking wants exactly two pieces and
  converts each; every way this can fail is a \<open>ValueError\<close>.
\<close>

definition parse_hm :: "string \<Rightarrow> exn + int \<times> int" where
  "parse_hm s =
     (case split CHR '':'' s of
        [p, q] \<Rightarrow>
          (case int_of_str p of
             Inl e \<Rightarrow> Inl e
           | Inr h \<Rightarrow> (case int_of_str q of Inl e \<Rightarrow> Inl e | Inr m \<Rightarrow> Inr (h, m)))
      | _ \<Rightarrow> Inl ValueError)"

subsection \<open>One pulse\<close>

text \<open>
  \<open>pulsetoclock(last_hm, a, b)\<close>: flip both phases, drive the pins, release them, then
  advance the recorded time by one minute on the twelve-hour face and write the record.
  The pins are driven before \<open>last_hm\<close> is parsed, so a malformed \<open>last_hm\<close> raises
  after the pulse has gone out. A failed write is logged and the new state is returned
  all the same.
\<close>

definition pulse_record :: "string \<Rightarrow> bool \<Rightarrow> bool \<Rightarrow> string" where
  "pulse_record hm a b = hm @ [TAB] @ str_bool a @ [TAB] @ str_bool b"

definition pulsetoclock ::
  "string \<Rightarrow> bool \<Rightarrow> bool \<Rightarrow> world \<Rightarrow> world \<times> (exn + string \<times> bool \<times> bool)" where
  "pulsetoclock last_hm a b w =
     (let a = \<not> a; b = \<not> b;
          w = emit Release (emit (Drive a b) w)
      in case parse_hm last_hm of
           Inl e \<Rightarrow> (w, Inl e)
         | Inr (h, m) \<Rightarrow>
             let m = m + 1;
                 h = (h + m div 60) mod 12;
                 m = m mod 60;
                 new_hm = hm_string h m;
                 w = write_file_logged ''lastpulseat.txt'' (pulse_record new_hm a b) w
             in (w, Inr (new_hm, a, b)))"

subsection \<open>The offset\<close>

text \<open>
  \<open>calcoffset(current_hm)\<close>. Only \<open>OSError\<close> is caught, so a record that does not
  split into three fields, or a time that does not parse, raises \<open>ValueError\<close> to the
  caller. The result \<open>None\<close> stands for the source's \<open>(None, None, None, None)\<close>.
  \<open>parse_record\<close> is the reading of the record in the \<open>try\<close> block (strip, split
  at the tabs, unpack three fields, compare the lower-cased phases with \<open>"true"\<close>);
  \<open>calcoffset_finish\<close> is the common end of both branches (the last three lines).
\<close>

definition calcoffset_finish ::
  "string \<Rightarrow> int \<Rightarrow> string \<Rightarrow> bool \<Rightarrow> bool \<Rightarrow> world
     \<Rightarrow> world \<times> (exn + (int \<times> string \<times> bool \<times> bool) option)" where
  "calcoffset_finish current_hm last_p last_hm a b w =
     (case pulsessince12 current_hm of
        Inl e \<Rightarrow> (w, Inl e)
      | Inr current_p \<Rightarrow> (w, Inr (Some (current_p - last_p, last_hm, a, b))))"

definition parse_record :: "string \<Rightarrow> exn + string \<times> bool \<times> bool" where
  "parse_record txt =
     (case split TAB (strip txt) of
        [last_hm, a_str, b_str] \<Rightarrow>
          Inr (last_hm, lower a_str = ''true'', lower b_str = ''true'')
      | _ \<Rightarrow> Inl ValueError)"

definition calcoffset ::
  "string \<Rightarrow> world \<Rightarrow> world \<times> (exn + (int \<times> string \<times> bool \<times> bool) option)" where
  "calcoffset current_hm w =
     (case read_file ''lastpulseat.txt'' w of
        Inr txt \<Rightarrow>
          (case parse_record txt of
             Inl e \<Rightarrow> (w, Inl e)
           | Inr (last_hm, a, b) \<Rightarrow>
               (case pulsessince12 last_hm of
                  Inl e \<Rightarrow> (w, Inl e)
                | Inr last_p \<Rightarrow> calcoffset_finish current_hm last_p last_hm a b w))
      | Inl _ \<Rightarrow>
          (case read_file ''firstruntime.txt'' w of
             Inl _ \<Rightarrow> (w, Inr None)
           | Inr base \<Rightarrow>
               (let last_hm = strip base
                in case pulsessince12 last_hm of
                     Inl e \<Rightarrow> (w, Inl e)
                   | Inr last_p \<Rightarrow>
                       let a = False; b = True;
                           w = write_file_logged ''lastpulseat.txt''
                                 (pulse_record last_hm a b) w
                       in calcoffset_finish current_hm last_p last_hm a b w)))"

subsection \<open>The catch-up loop and the sync handler\<close>

text \<open>
  One iteration of \<open>clock_loop\<close>, given the hour and the minute that
  \<open>time.localtime()\<close> returns. The Wi-Fi retry at the end of the iteration touches
  neither the pins nor the two files and is left out.
\<close>

definition clock_loop_iter :: "int \<times> int \<Rightarrow> world \<Rightarrow> world \<times> (exn + unit)" where
  "clock_loop_iter now w =
     (let rtc_hm = hm_string (fst now) (snd now)
      in case calcoffset rtc_hm w of
           (w, Inl e) \<Rightarrow> (w, Inl e)
         | (w, Inr None) \<Rightarrow> (w, Inr ())
         | (w, Inr (Some (offset, last_hm, a, b))) \<Rightarrow>
             if offset \<noteq> 0 then
               (case pulsetoclock last_hm a b w of
                  (w, Inl e) \<Rightarrow> (w, Inl e)
                | (w, Inr _) \<Rightarrow> (w, Inr ()))
             else (w, Inr ()))"

text \<open>
  \<open>clock_loop\<close> runs forever; here it runs over a finite list of clock readings, one
  per iteration, and stops early when an iteration raises.
\<close>

fun clock_loop :: "(int \<times> int) list \<Rightarrow> world \<Rightarrow> world \<times> (exn + unit)" where
  "clock_loop [] w = (w, Inr ())"
| "clock_loop (now # nows) w =
     (case clock_loop_iter now w of
        (w, Inl e) \<Rightarrow> (w, Inl e)
      | (w, Inr _) \<Rightarrow> clock_loop nows w)"



section \<open>main.py: the DCF77 radio time-code decoder\<close>

subsection \<open>Helpers\<close>

text \<open>\<open>twodigits(str)\<close> of main.py pads a one-character string with a zero.\<close>

definition twodigits_str :: "string \<Rightarrow> string" where
  "twodigits_str s = (if length s = 1 then ''0'' @ s else s)"

text \<open>\<open>weekday(i)\<close>: a dictionary lookup with a default.\<close>

definition switcher :: "(int \<times> string) list" where
  "switcher =
     [(1, ''Monday''), (2, ''Tuesday''), (3, ''Wednesday''), (4, ''Thursday''),
      (5, ''Friday''), (6, ''Saturday''), (7, ''Sunday'')]"

definition weekday :: "int \<Rightarrow> string" where
  "weekday i = (case map_of switcher i of None \<Rightarrow> ''Invalid day of week'' | Some d \<Rightarrow> d)"

text \<open>The slice \<open>xs[i:j]\<close> for \<open>0 \<le> i \<le> j\<close>.\<close>

definition slice :: "nat \<Rightarrow> nat \<Rightarrow> 'a list \<Rightarrow> 'a list" where
  "slice i j xs = take (j - i) (drop i xs)"

subsection \<open>Classifying one cell\<close>

definition samplespeed :: int where
  "samplespeed = 5"

definition noisethreshms :: int where
  "noisethreshms = 40"

definition zerothreshms :: int where
  "zerothreshms = 180"

text \<open>
  \<open>samples = floor(1000/samplespeed * .35)\<close> is 70: the product rounds to exactly
  \<open>70.0\<close> in binary floating point, single or double precision.
\<close>

definition samples :: nat where
  "samples = 70"

text \<open>
  The body of the sampling loop after the window has been shifted: when the window
  starts with a rising edge, the number of ones in it is compared with the two
  thresholds and a bit is appended to \<open>timeInfo\<close>, or the cell is dropped as noise.
  The thresholds \<open>1000/samplespeed * noisethreshms/1000\<close> and
  \<open>1000/samplespeed * zerothreshms/1000\<close> are floating-point expressions in the source;
  every intermediate value (200, 8000, 8, 36000, 36) is a small integer, which floating
  point represents exactly, so they are computed here in the reals.
  The state is \<open>(timeInfo, bitNum)\<close>.
\<close>

definition computeTime_classify :: "int list \<Rightarrow> int list \<times> nat \<Rightarrow> int list \<times> nat" where
  "computeTime_classify a st =
     (case st of (timeInfo, bitNum) \<Rightarrow>
        if a ! 0 = 0 \<and> a ! 1 = 1 \<and> sum_list (slice 0 10 a) > 7 then
          if real_of_int (sum_list a)
               > 1000 / real_of_int samplespeed * real_of_int noisethreshms / 1000 then
            (if real_of_int (sum_list a)
                  \<le> 1000 / real_of_int samplespeed * real_of_int zerothreshms / 1000
             then (timeInfo @ [0], bitNum + 1)
             else (timeInfo @ [1], bitNum + 1))
          else (timeInfo, bitNum)
        else (timeInfo, bitNum))"

subsection \<open>Decoding a complete frame\<close>

text \<open>The local variables that hold the decoded fields.\<close>

record decoded =
  minute :: int
  stunde :: int
  tag :: int
  wochentag :: int
  monat :: int
  jahr :: int

text \<open>
  The string that \<open>computeTime\<close> returns on success:
  \<open>HH:MM:00,Weekday,YYYY-MM-DD\<close>.
\<close>

definition radiotime_string :: "decoded \<Rightarrow> string" where
  "radiotime_string d =
     twodigits_str (str_int (stunde d)) @ '':'' @ twodigits_str (str_int (minute d)) @ '':00,''
       @ weekday (wochentag d) @ '','' @ str_int (2000 + jahr d) @ ''-''
       @ twodigits_str (str_int (monat d)) @ ''-'' @ twodigits_str (str_int (tag d))"

text \<open>
  The branch \<open>if bitNum == 59\<close> of the loop, in two steps. \<open>computeTime_fields\<close> is
  the checking and the field extraction: marker bits, the three parity sums, the BCD
  fields, the daylight-saving bits; \<open>None\<close> stands for each \<open>return radiotime\<close> taken
  while \<open>radiotime\<close> is still \<open>'failed'\<close>. \<open>computeTime_frame\<close> is the value
  returned. The branch runs only when \<open>timeInfo\<close> holds 59 bits (lemma
  \<open>computeTime_returns_frame\<close> below), so every index is in range. The variable
  \<open>season\<close> is assigned and never used; the returned string does not carry it.
\<close>

definition computeTime_fields :: "int list \<Rightarrow> decoded option" where
  "computeTime_fields timeInfo =
     (if timeInfo ! 0 \<noteq> 0 \<or> timeInfo ! 20 \<noteq> 1 then None
      else if sum_list (slice 21 29 timeInfo) mod 2 = 1
              \<or> sum_list (slice 29 36 timeInfo) mod 2 = 1
              \<or> sum_list (slice 36 59 timeInfo) mod 2 = 1 then None
      else
        let d = \<lparr>minute = timeInfo ! 21 + 2 * timeInfo ! 22 + 4 * timeInfo ! 23
                     + 8 * timeInfo ! 24 + 10 * timeInfo ! 25 + 20 * timeInfo ! 26
                     + 40 * timeInfo ! 27,
                 stunde = timeInfo ! 29 + 2 * timeInfo ! 30 + 4 * timeInfo ! 31
                     + 8 * timeInfo ! 32 + 10 * timeInfo ! 33 + 20 * timeInfo ! 34,
                 tag = timeInfo ! 36 + 2 * timeInfo ! 37 + 4 * timeInfo ! 38
                     + 8 * timeInfo ! 39 + 10 * timeInfo ! 40 + 20 * timeInfo ! 41,
                 wochentag = timeInfo ! 42 + 2 * timeInfo ! 43 + 4 * timeInfo ! 44,
                 monat = timeInfo ! 45 + 2 * timeInfo ! 46 + 4 * timeInfo ! 47
                     + 8 * timeInfo ! 48 + 10 * timeInfo ! 49,
                 jahr = timeInfo ! 50 + 2 * timeInfo ! 51 + 4 * timeInfo ! 52
                     + 8 * timeInfo ! 53 + 10 * timeInfo ! 54 + 20 * timeInfo ! 55
                     + 40 * timeInfo ! 56 + 80 * timeInfo ! 57\<rparr>
        in case (if timeInfo ! 17 = 1 then Some ''CEST''
                 else if timeInfo ! 18 = 1 then Some ''CET''
                 else None) of
             None \<Rightarrow> None
           | Some season \<Rightarrow> Some d)"

definition computeTime_frame :: "int list \<Rightarrow> string" where
  "computeTime_frame timeInfo =
     (case computeTime_fields timeInfo of
        None \<Rightarrow> ''failed''
      | Some d \<Rightarrow> radiotime_string d)"

subsection \<open>The sampling loop\<close>

text \<open>
  \<open>computeTime\<close> loops until a frame is complete. Here it consumes a list of readings
  of the signal pin, one per iteration; \<open>None\<close> says that the readings ran out while
  the loop was still waiting for bits.
\<close>

fun computeTime_loop :: "int list \<Rightarrow> int list \<Rightarrow> int list \<times> nat \<Rightarrow> string option" where
  "computeTime_loop [] a st = None"
| "computeTime_loop (v # vs) a st =
     (let a = tl a @ [v];
          st = computeTime_classify a st
      in if snd st = 59 then Some (computeTime_frame (fst st))
         else computeTime_loop vs a st)"

definition computeTime :: "int list \<Rightarrow> string option" where
  "computeTime vs = computeTime_loop vs (replicate samples 0) ([], 0)"

subsection \<open>The minute pulse of main.py\<close>

text \<open>
  \<open>pulseminute(timestring, a, b)\<close>: enable the motor, flip both phases and drive them,
  disable the motor, write the record, return the new \<open>a\<close>. The write is not guarded:
  a refused write raises \<open>OSError\<close>.
\<close>

definition pulseminute :: "string \<Rightarrow> bool \<Rightarrow> bool \<Rightarrow> world \<Rightarrow> world \<times> (exn + bool)" where
  "pulseminute timestring a b w =
     (let a = \<not> a; b = \<not> b;
          w = emit Release (emit (Drive a b) w);
          strngtofile = timestring @ [TAB] @ str_bool a @ [TAB] @ str_bool b
      in case write_file ''lastpulseat.txt'' strngtofile w of
           None \<Rightarrow> (w, Inl OSError)
         | Some w \<Rightarrow> (w, Inr a))"

text \<open>
  The main loop's use of it: \<open>a = pulseminute(radiotime, a, b); b = not a\<close>, starting
  from \<open>a = True; b = False\<close>.
\<close>

definition main_initial_phases :: "bool \<times> bool" where
  "main_initial_phases = (True, False)"

definition main_pulse :: "string \<Rightarrow> bool \<times> bool \<Rightarrow> world \<Rightarrow> world \<times> (exn + bool \<times> bool)" where
  "main_pulse radiotime ab w =
     (case pulseminute radiotime (fst ab) (snd ab) w of
        (w, Inl e) \<Rightarrow> (w, Inl e)
      | (w, Inr a) \<Rightarrow> (w, Inr (a, \<not> a)))"

section \<open>Vocabulary of the properties\<close>

text \<open>The number of pulses in a trace: one per \<open>Drive\<close> event.\<close>

fun is_drive :: "event \<Rightarrow> bool" where
  "is_drive (Drive a b) = True"
| "is_drive _ = False"

definition pulses :: "event list \<Rightarrow> nat" where
  "pulses t = length (filter is_drive t)"




text \<open>
  The measured pulse duration of a window in milliseconds: one sample every
  \<open>samplespeed\<close> milliseconds, each sample that reads 1 counted. The start of a cell
  is the rising edge that the loop tests for.
\<close>

definition duration_ms :: "int list \<Rightarrow> int" where
  "duration_ms a = samplespeed * sum_list a"

definition cell_start :: "int list \<Rightarrow> bool" where
  "cell_start a = (a ! 0 = 0 \<and> a ! 1 = 1 \<and> sum_list (slice 0 10 a) > 7)"

text \<open>
  The BCD-weighted value of a field of a frame: the bits from \<open>start\<close> on, \<open>width\<close>
  of them, least significant first, with the weights 1, 2, 4, 8, 10, 20, 40, 80.
\<close>

definition bcd_weights :: "int list" where
  "bcd_weights = [1, 2, 4, 8, 10, 20, 40, 80]"

definition bcd_field :: "int list \<Rightarrow> nat \<Rightarrow> nat \<Rightarrow> int" where
  "bcd_field f start width =
     sum_list (map2 (*) (take width bcd_weights) (slice start (start + width) f))"

text \<open>
  The frame built from a known time, as the time signal lays it out: bit 0 is 0, bits
  1 to 16 carry no time information (zero here), bit 17 announces summer time and bit 18
  winter time, bit 19 is 0, bit 20 is 1, then the minute (7 bits) and its parity bit,
  the hour (6 bits) and its parity bit, and the day (6 bits), the weekday (3 bits), the
  month (5 bits) and the year (8 bits) with their common parity bit. Every parity bit
  makes the sum of its group even.
\<close>

definition bit_of :: "int \<Rightarrow> nat \<Rightarrow> int" where
  "bit_of v i = (v div 2 ^ i) mod 2"

definition parity_bit :: "int list \<Rightarrow> int" where
  "parity_bit bs = sum_list bs mod 2"

definition encode_frame :: "decoded \<Rightarrow> bool \<Rightarrow> int list" where
  "encode_frame t dst =
     (let mi = [bit_of (minute t mod 10) 0, bit_of (minute t mod 10) 1,
                bit_of (minute t mod 10) 2, bit_of (minute t mod 10) 3,
                bit_of (minute t div 10) 0, bit_of (minute t div 10) 1,
                bit_of (minute t div 10) 2];
          st = [bit_of (stunde t mod 10) 0, bit_of (stunde t mod 10) 1,
                bit_of (stunde t mod 10) 2, bit_of (stunde t mod 10) 3,
                bit_of (stunde t div 10) 0, bit_of (stunde t div 10) 1];
          da = [bit_of (tag t mod 10) 0, bit_of (tag t mod 10) 1,
                bit_of (tag t mod 10) 2, bit_of (tag t mod 10) 3,
                bit_of (tag t div 10) 0, bit_of (tag t div 10) 1,
                bit_of (wochentag t) 0, bit_of (wochentag t) 1, bit_of (wochentag t) 2,
                bit_of (monat t mod 10) 0, bit_of (monat t mod 10) 1,
                bit_of (monat t mod 10) 2, bit_of (monat t mod 10) 3,
                bit_of (monat t div 10) 0,
                bit_of (jahr t mod 10) 0, bit_of (jahr t mod 10) 1,
                bit_of (jahr t mod 10) 2, bit_of (jahr t mod 10) 3,
                bit_of (jahr t div 10) 0, bit_of (jahr t div 10) 1,
                bit_of (jahr t div 10) 2, bit_of (jahr t div 10) 3]
      in [0, 0, 0, 0, 0, 0, 0, 0, 0, 0, 0, 0, 0, 0, 0, 0, 0,
          if dst then 1 else 0, if dst then 0 else 1, 0, 1]
           @ mi @ [parity_bit mi] @ st @ [parity_bit st] @ da @ [parity_bit da])"

text \<open>
  Three frames for the examples: one that passes the marker and parity checks with
  neither daylight-saving bit set, one with every time bit set, one with every time
  bit clear.
\<close>

definition frame_no_season :: "int list" where
  "frame_no_season = replicate 20 0 @ [1] @ replicate 38 0"

definition frame_all_ones :: "int list" where
  "frame_all_ones =
     replicate 17 0 @ [1, 0, 0, 1] @ replicate 7 1 @ [1] @ replicate 6 1 @ [0]
       @ replicate 22 1 @ [0]"

definition frame_all_zeros :: "int list" where
  "frame_all_zeros = replicate 17 0 @ [1, 0, 0, 1] @ replicate 38 0"

text \<open>
  A world with the given contents of \<open>lastpulseat.txt\<close> and \<open>firstruntime.txt\<close>
  (\<open>None\<close>: the file does not exist), storage that accepts every write and an empty
  trace; and the same world with a record file that the storage refuses to open for
  writing.
\<close>

definition stored :: "string option \<Rightarrow> string option \<Rightarrow> world" where
  "stored rec base =
     \<lparr>files = (\<lambda>_. None)(''lastpulseat.txt'' := rec, ''firstruntime.txt'' := base),
      writable = (\<lambda>_. True), trace = []\<rparr>"



section \<open>Well-formed times and records\<close>

text \<open>
  The controller writes times with \<open>hm_string\<close>, two decimal digits each for the hour
  and the minute. These lemmas say that such a string survives \<open>strip\<close>, splits at the
  colon and parses back to the numbers it was made from.
\<close>

lemma lt10_cases:
  "d < 10 \<Longrightarrow> d = 0 \<or> d = 1 \<or> d = 2 \<or> d = 3 \<or> d = 4 \<or> d = 5 \<or> d = 6 \<or> d = 7 \<or> d = 8 \<or> d = (9::nat)"
  by arith


lemma digit_char_plain:
  "d < 10 \<Longrightarrow> \<not> isspace (digit_char d) \<and> digit_char d \<noteq> CHR '':'' \<and> digit_char d \<noteq> TAB
     \<and> digit_char d \<noteq> CHR ''-'' \<and> digit_char d \<noteq> CHR ''+''"
  using lt10_cases [of d] by (auto simp: digit_char_def isspace_def int_space_def TAB_def)


text \<open>Trimming with any character class, as \<open>strip\<close> and \<open>int\<close> both do.\<close>

lemma trim_plain:
  assumes "s \<noteq> []" "\<not> P (hd s)" "\<not> P (last s)"
  shows "rev (dropWhile P (rev (dropWhile P s))) = s"
proof -
  have 1: "dropWhile P s = s" using assms by (cases s) auto
  have "rev s \<noteq> []" "\<not> P (hd (rev s))" using assms by (auto simp: hd_rev)
  then have "dropWhile P (rev s) = rev s" by (cases "rev s") auto
  then show ?thesis using 1 by simp
qed



lemma twodigits_digits:
  assumes "0 \<le> n" "n < 100"
  shows "twodigits n = [digit_char (nat n div 10), digit_char (nat n mod 10)]"
proof (cases "n < 10")
  case True
  then have "str_int n = [digit_char (nat n)]"
    using assms by (simp add: str_int_def str_nat.simps)
  moreover have "digit_char 0 = CHR ''0''" by (simp add: digit_char_def)
  ultimately show ?thesis using True assms by (simp add: twodigits_def)
next
  case False
  then have "nat n div 10 < 10" using assms by simp
  then have "str_nat (nat n) = [digit_char (nat n div 10), digit_char (nat n mod 10)]"
    using False assms by (simp add: str_nat.simps [of "nat n"] str_nat.simps [of "nat n div 10"])
  then show ?thesis using assms by (simp add: twodigits_def str_int_def)
qed

lemma strip_plain:
  assumes "s \<noteq> []" "\<not> isspace (hd s)" "\<not> isspace (last s)"
  shows "strip s = s"
  unfolding strip_def using assms by (rule trim_plain)







lemma hm_string_shape:
  assumes "0 \<le> h" "h < 100" "0 \<le> m" "m < 100"
  shows "hm_string h m = [digit_char (nat h div 10), digit_char (nat h mod 10), CHR '':'',
                          digit_char (nat m div 10), digit_char (nat m mod 10)]"
  using assms by (simp add: hm_string_def twodigits_digits)

lemma lower_str_bool: "(lower (str_bool a) = ''true'') = a"
  by (simp add: lower_def lower_char_def upper_letters_def lower_letters_def str_bool_def)

lemma split_no_sep: "sep \<notin> set s \<Longrightarrow> split sep s = [s]"
  by (induction s) auto

lemma split_append_sep:
  "sep \<notin> set s \<Longrightarrow> split sep (s @ sep # t) = s # split sep t"
  by (induction s) auto

lemma str_bool_plain: "TAB \<notin> set (str_bool a) \<and> str_bool a \<noteq> [] \<and> \<not> isspace (last (str_bool a))"
  by (simp add: str_bool_def TAB_def isspace_def int_space_def)

lemma TAB_not_digit: "d < 10 \<Longrightarrow> TAB \<noteq> digit_char d"
  using digit_char_plain [of d] by auto

lemma TAB_not_colon: "TAB \<noteq> CHR '':''"
  by (simp add: TAB_def)

lemma parse_record_pulse_record:
  assumes "0 \<le> h" "h < 100" "0 \<le> m" "m < 100"
  shows "parse_record (pulse_record (hm_string h m) a b) = Inr (hm_string h m, a, b)"
proof -
  let ?hm = "hm_string h m"
  have d: "nat h div 10 < 10" "nat h mod 10 < 10" "nat m div 10 < 10" "nat m mod 10 < 10"
    using assms by auto
  have shape: "?hm = [digit_char (nat h div 10), digit_char (nat h mod 10), CHR '':'',
                      digit_char (nat m div 10), digit_char (nat m mod 10)]"
    using assms by (rule hm_string_shape)
  have notab: "TAB \<notin> set ?hm"
    using d by (simp add: shape TAB_not_digit TAB_not_colon)
  have "\<not> isspace (hd (pulse_record ?hm a b))"
    using d digit_char_plain by (simp add: shape pulse_record_def)
  moreover have "\<not> isspace (last (pulse_record ?hm a b))"
    using str_bool_plain [of b] by (simp add: pulse_record_def)
  moreover have "pulse_record ?hm a b \<noteq> []"
    by (simp add: pulse_record_def)
  ultimately have s: "strip (pulse_record ?hm a b) = pulse_record ?hm a b"
    by (intro strip_plain)
  have "split TAB (pulse_record ?hm a b) = [?hm, str_bool a, str_bool b]"
    using notab str_bool_plain [of a] str_bool_plain [of b]
    by (simp add: pulse_record_def split_append_sep split_no_sep)
  then show ?thesis
    by (simp add: parse_record_def s lower_str_bool)
qed













lemma write_file_logged_writable:
  assumes "writable w n"
  shows "files (write_file_logged n s w) n = Some s"
    and "writable (write_file_logged n s w) = writable w"
    and "trace (write_file_logged n s w) = trace w @ [Write n s]"
  using assms by (simp_all add: write_file_logged_def write_file_def emit_def)


lemma write_file_logged_fields:
  "files (write_file_logged n s w) n = (if writable w n then Some s else files w n)"
  "writable (write_file_logged n s w) = writable w"
  "trace (write_file_logged n s w) = trace w @ (if writable w n then [Write n s] else [])"
  by (simp_all add: write_file_logged_def write_file_def emit_def)

lemma emit_fields:
  "files (emit e w) = files w" "writable (emit e w) = writable w"
  "trace (emit e w) = trace w @ [e]"
  by (simp_all add: emit_def)














section \<open>Pulses per operation\<close>

lemma pulses_emit: "pulses (trace (emit e w)) = pulses (trace w) + (if is_drive e then 1 else 0)"
  by (simp add: pulses_def emit_def)

lemma pulses_write_file_logged: "pulses (trace (write_file_logged n s w)) = pulses (trace w)"
  by (simp add: write_file_logged_def write_file_def pulses_emit)

lemma pulses_calcoffset_finish:
  "pulses (trace (fst (calcoffset_finish c p l a b w))) = pulses (trace w)"
  by (simp add: calcoffset_finish_def split: sum.splits)

lemma pulses_calcoffset: "pulses (trace (fst (calcoffset c w))) = pulses (trace w)"
  by (simp add: calcoffset_def Let_def pulses_calcoffset_finish pulses_write_file_logged
      split: sum.splits prod.splits)

lemma pulses_pulsetoclock:
  "pulses (trace (fst (pulsetoclock l a b w))) = pulses (trace w) + 1"
  by (simp add: pulsetoclock_def Let_def pulses_emit pulses_write_file_logged
      split: sum.splits prod.splits)

lemma pulses_stored: "pulses (trace (stored rec base)) = 0"
  by (simp add: stored_def pulses_def)

text \<open>
  Claim C10. One iteration of the catch-up loop applies at most one pulse, whatever the
  offset that \<open>calcoffset\<close> computed: none when the state lookup failed (the result
  \<open>None\<close>) or the offset is zero, exactly one when the offset is any other number.
\<close>

theorem clock_loop_iter_one_pulse_at_most:
  "pulses (trace (fst (clock_loop_iter now w))) \<le> pulses (trace w) + 1
   \<and> (snd (calcoffset (hm_string (fst now) (snd now)) w) = Inr None
        \<longrightarrow> pulses (trace (fst (clock_loop_iter now w))) = pulses (trace w))
   \<and> (snd (calcoffset (hm_string (fst now) (snd now)) w) = Inr (Some (offset, last_hm, a, b))
        \<longrightarrow> pulses (trace (fst (clock_loop_iter now w)))
              = pulses (trace w) + (if offset = 0 then 0 else 1))"
proof -
  obtain w1 r where c: "calcoffset (hm_string (fst now) (snd now)) w = (w1, r)"
    by (cases "calcoffset (hm_string (fst now) (snd now)) w")
  have p1: "pulses (trace w1) = pulses (trace w)"
    using pulses_calcoffset [of "hm_string (fst now) (snd now)" w] c by simp
  show ?thesis
  proof (cases r)
    case (Inl e)
    then show ?thesis using c p1 by (simp add: clock_loop_iter_def)
  next
    case (Inr v)
    show ?thesis
    proof (cases v)
      case None
      then show ?thesis using c p1 Inr by (simp add: clock_loop_iter_def)
    next
      case (Some t)
      obtain offset' last_hm' a' b' where t: "t = (offset', last_hm', a', b')"
        by (cases t)
      obtain w2 r2 where p: "pulsetoclock last_hm' a' b' w1 = (w2, r2)"
        by (cases "pulsetoclock last_hm' a' b' w1")
      have p2: "pulses (trace w2) = pulses (trace w1) + 1"
        using pulses_pulsetoclock [of last_hm' a' b' w1] p by simp
      show ?thesis using c p1 Inr Some t p p2
        by (cases r2) (auto simp add: clock_loop_iter_def)
    qed
  qed
qed

theorem clock_loop_iter_one_pulse_at_most_witness:
  "pulses (trace (fst (clock_loop_iter (0, 30) (stored None None)))) = 0
   \<and> snd (calcoffset (hm_string 0 30) (stored (Some (pulse_record ''00:05'' False True)) None))
         = Inr (Some (25, ''00:05'', False, True))
   \<and> pulses (trace (fst (clock_loop_iter (0, 30)
         (stored (Some (pulse_record ''00:05'' False True)) None)))) = 1
   \<and> snd (calcoffset (hm_string 0 30) (stored (Some (pulse_record ''00:30'' False True)) None))
         = Inr (Some (0, ''00:30'', False, True))
   \<and> pulses (trace (fst (clock_loop_iter (0, 30)
         (stored (Some (pulse_record ''00:30'' False True)) None)))) = 0"
proof -
  have a: "snd (calcoffset (hm_string (fst (0, 30)) (snd (0, 30))) (stored None None)) = Inr None"
    by code_simp
  have b: "snd (calcoffset (hm_string (fst (0, 30)) (snd (0, 30)))
             (stored (Some (pulse_record ''00:05'' False True)) None))
           = Inr (Some (25, ''00:05'', False, True))"
    by code_simp
  have c: "snd (calcoffset (hm_string (fst (0, 30)) (snd (0, 30)))
             (stored (Some (pulse_record ''00:30'' False True)) None))
           = Inr (Some (0, ''00:30'', False, True))"
    by code_simp
  show ?thesis
    using clock_loop_iter_one_pulse_at_most [of "(0, 30)" "stored None None"]
      clock_loop_iter_one_pulse_at_most [of "(0, 30)"
        "stored (Some (pulse_record ''00:05'' False True)) None" 25 "''00:05''" False True]
      clock_loop_iter_one_pulse_at_most [of "(0, 30)"
        "stored (Some (pulse_record ''00:30'' False True)) None" 0 "''00:30''" False True]
      a b c
    by (simp add: pulses_stored)
qed


section \<open>The offset and the direction of the clock\<close>




section \<open>Repeating an iteration\<close>





section \<open>First run: bootstrapping from the baseline\<close>

lemma calcoffset_bootstrap:
  assumes "files w ''lastpulseat.txt'' = None" "files w ''firstruntime.txt'' = Some base"
  shows "calcoffset c w =
           (case pulsessince12 (strip base) of
              Inl e \<Rightarrow> (w, Inl e)
            | Inr last_p \<Rightarrow>
                calcoffset_finish c last_p (strip base) False True
                  (write_file_logged ''lastpulseat.txt'' (pulse_record (strip base) False True) w))"
  using assms by (simp add: calcoffset_def read_file_def Let_def split: sum.splits)

lemma calcoffset_finish_world: "fst (calcoffset_finish c p l a b w) = w"
  by (simp add: calcoffset_finish_def split: sum.splits)

lemma calcoffset_finish_result:
  "snd (calcoffset_finish c p l a b w) = Inr (Some (offset, l', a', b'))
     \<Longrightarrow> l' = l \<and> a' = a \<and> b' = b"
  by (simp add: calcoffset_finish_def split: sum.splits)







section \<open>The two phases\<close>

lemma pulsetoclock_result:
  assumes "snd (pulsetoclock last_hm a b w) = Inr (new_hm, a', b')"
  shows "a' = (\<not> a) \<and> b' = (\<not> b)
         \<and> (\<exists>h m. 0 \<le> h \<and> h < 12 \<and> 0 \<le> m \<and> m < 60 \<and> new_hm = hm_string h m)
         \<and> fst (pulsetoclock last_hm a b w)
             = write_file_logged ''lastpulseat.txt'' (pulse_record new_hm a' b')
                 (emit Release (emit (Drive a' b') w))"
proof (cases "parse_hm last_hm")
  case (Inl e)
  then show ?thesis using assms by (simp add: pulsetoclock_def)
next
  case (Inr hm)
  obtain h m where hm: "hm = (h, m)" by (cases hm)
  let ?h = "(h + (m + 1) div 60) mod 12"
  let ?m = "(m + 1) mod 60"
  have e: "new_hm = hm_string ?h ?m" "a' = (\<not> a)" "b' = (\<not> b)"
    using assms Inr hm by (simp_all add: pulsetoclock_def Let_def)
  have "0 \<le> ?h \<and> ?h < 12 \<and> 0 \<le> ?m \<and> ?m < 60 \<and> new_hm = hm_string ?h ?m"
    using e by simp
  then have x: "\<exists>h m. 0 \<le> h \<and> h < 12 \<and> 0 \<le> m \<and> m < 60 \<and> new_hm = hm_string h m"
    by blast
  have "fst (pulsetoclock last_hm a b w)
             = write_file_logged ''lastpulseat.txt'' (pulse_record new_hm a' b')
                 (emit Release (emit (Drive a' b') w))"
    using e Inr hm by (simp add: pulsetoclock_def Let_def)
  then show ?thesis using e x by blast
qed

text \<open>
  Claim C8. A pulse that completes keeps a complementary phase pair complementary:
  \<open>pulsetoclock\<close> returns both phases flipped, the record it writes holds the same
  pair, and reading that record back (as \<open>calcoffset\<close> does) gives the pair again;
  \<open>pulseminute\<close> of main.py writes the flipped pair and the main loop continues with
  \<open>b = not a\<close>. Every bootstrap starts from a complementary pair: \<open>False, True\<close> in
  \<open>calcoffset\<close> (in memory and in the record it writes), \<open>True, False\<close> in main.py.
\<close>

theorem phases_stay_complementary:
  "(a \<noteq> b \<and> snd (pulsetoclock last_hm a b w) = Inr (new_hm, a', b')
      \<longrightarrow> a' \<noteq> b'
          \<and> parse_record (pulse_record new_hm a' b') = Inr (new_hm, a', b')
          \<and> (writable w ''lastpulseat.txt'' \<longrightarrow> files (fst (pulsetoclock last_hm a b w)) ''lastpulseat.txt''
                               = Some (pulse_record new_hm a' b')))
   \<and> (a \<noteq> b \<and> snd (pulseminute timestring a b w) = Inr a'
      \<longrightarrow> a' = (\<not> a)
          \<and> files (fst (pulseminute timestring a b w)) ''lastpulseat.txt''
              = Some (timestring @ [TAB] @ str_bool a' @ [TAB] @ str_bool (\<not> a')))
   \<and> (snd (main_pulse timestring (a, b) w) = Inr (a', b') \<longrightarrow> a' \<noteq> b')
   \<and> fst main_initial_phases \<noteq> snd main_initial_phases
   \<and> (files w ''lastpulseat.txt'' = None
        \<and> snd (calcoffset c w) = Inr (Some (offset, last_hm, a, b))
      \<longrightarrow> a \<noteq> b
          \<and> (writable w ''lastpulseat.txt'' \<longrightarrow> files (fst (calcoffset c w)) ''lastpulseat.txt''
                               = Some (pulse_record last_hm a b)))"
proof -
  have 1: "a \<noteq> b \<and> snd (pulsetoclock last_hm a b w) = Inr (new_hm, a', b')
      \<longrightarrow> a' \<noteq> b'
          \<and> parse_record (pulse_record new_hm a' b') = Inr (new_hm, a', b')
          \<and> (writable w ''lastpulseat.txt'' \<longrightarrow> files (fst (pulsetoclock last_hm a b w)) ''lastpulseat.txt''
                               = Some (pulse_record new_hm a' b'))"
  proof (intro impI, elim conjE)
    assume ab: "a \<noteq> b" and r: "snd (pulsetoclock last_hm a b w) = Inr (new_hm, a', b')"
    note p = pulsetoclock_result [OF r]
    obtain h m where hm: "0 \<le> h" "h < 12" "0 \<le> m" "m < 60" "new_hm = hm_string h m"
      using p by blast
    have "parse_record (pulse_record new_hm a' b') = Inr (new_hm, a', b')"
      using hm parse_record_pulse_record [of h m a' b'] by simp
    moreover have "writable w ''lastpulseat.txt'' \<longrightarrow> files (fst (pulsetoclock last_hm a b w)) ''lastpulseat.txt''
                               = Some (pulse_record new_hm a' b')"
      using p by (simp add: write_file_logged_fields emit_fields)
    ultimately show "a' \<noteq> b'
          \<and> parse_record (pulse_record new_hm a' b') = Inr (new_hm, a', b')
          \<and> (writable w ''lastpulseat.txt'' \<longrightarrow> files (fst (pulsetoclock last_hm a b w)) ''lastpulseat.txt''
                               = Some (pulse_record new_hm a' b'))"
      using p ab by blast
  qed
  have 2: "a \<noteq> b \<and> snd (pulseminute timestring a b w) = Inr a'
      \<longrightarrow> a' = (\<not> a)
          \<and> files (fst (pulseminute timestring a b w)) ''lastpulseat.txt''
              = Some (timestring @ [TAB] @ str_bool a' @ [TAB] @ str_bool (\<not> a'))"
    by (auto simp add: pulseminute_def Let_def write_file_def emit_def split: if_splits)
  have 3: "snd (main_pulse timestring (a, b) w) = Inr (a', b') \<longrightarrow> a' \<noteq> b'"
    by (auto simp add: main_pulse_def split: prod.splits sum.splits)
  have 4: "fst main_initial_phases \<noteq> snd main_initial_phases"
    by (simp add: main_initial_phases_def)
  have 5: "files w ''lastpulseat.txt'' = None
        \<and> snd (calcoffset c w) = Inr (Some (offset, last_hm, a, b))
      \<longrightarrow> a \<noteq> b
          \<and> (writable w ''lastpulseat.txt'' \<longrightarrow> files (fst (calcoffset c w)) ''lastpulseat.txt''
                               = Some (pulse_record last_hm a b))"
  proof (intro impI, elim conjE)
    assume n: "files w ''lastpulseat.txt'' = None"
      and r: "snd (calcoffset c w) = Inr (Some (offset, last_hm, a, b))"
    show "a \<noteq> b \<and> (writable w ''lastpulseat.txt'' \<longrightarrow> files (fst (calcoffset c w)) ''lastpulseat.txt''
                               = Some (pulse_record last_hm a b))"
    proof (cases "files w ''firstruntime.txt''")
      case None
      then show ?thesis using n r by (simp add: calcoffset_def read_file_def)
    next
      case (Some base)
      show ?thesis
      proof (cases "pulsessince12 (strip base)")
        case (Inl e)
        then show ?thesis using r by (simp add: calcoffset_bootstrap [OF n Some])
      next
        case (Inr last_p)
        then have "last_hm = strip base \<and> a = False \<and> b = True"
          using r calcoffset_finish_result by (simp add: calcoffset_bootstrap [OF n Some]) blast
        moreover have "fst (calcoffset c w)
            = write_file_logged ''lastpulseat.txt'' (pulse_record (strip base) False True) w"
          using Inr by (simp add: calcoffset_bootstrap [OF n Some] calcoffset_finish_world)
        ultimately show ?thesis by (simp add: write_file_logged_fields)
      qed
    qed
  qed
  show ?thesis using 1 2 3 4 5 by blast
qed

theorem phases_stay_complementary_witness:
  "parse_record (pulse_record ''03:16'' True False) = Inr (''03:16'', True, False)
   \<and> files (fst (pulsetoclock ''03:15'' False True (stored None None))) ''lastpulseat.txt''
       = Some (pulse_record ''03:16'' True False)
   \<and> files (fst (pulseminute ''13:15:00,Wednesday,2021-11-14'' True False (stored None None)))
         ''lastpulseat.txt''
       = Some (''13:15:00,Wednesday,2021-11-14'' @ [TAB] @ str_bool False @ [TAB] @ str_bool True)
   \<and> files (fst (calcoffset ''03:16'' (stored None (Some ''03:15'')))) ''lastpulseat.txt''
       = Some (pulse_record ''03:15'' False True)"
proof -
  have p: "snd (pulsetoclock ''03:15'' False True (stored None None))
             = Inr (''03:16'', True, False)"
    by code_simp
  have q: "snd (pulseminute ''13:15:00,Wednesday,2021-11-14'' True False (stored None None))
             = Inr False"
    by code_simp
  have m: "snd (main_pulse ''13:15:00,Wednesday,2021-11-14'' (True, False) (stored None None))
             = Inr (False, True)"
    by code_simp
  have c: "snd (calcoffset ''03:16'' (stored None (Some ''03:15'')))
             = Inr (Some (1, ''03:15'', False, True))"
    by code_simp
  have h: "writable (stored x y) ''lastpulseat.txt''"
    "files (stored None y) ''lastpulseat.txt'' = None" for x y
    by (simp_all add: stored_def)
  show ?thesis
    using phases_stay_complementary
        [of False True "''03:15''" "stored None None" "''03:16''" True False]
      phases_stay_complementary
        [of True False _ "stored None None" _ False True "''13:15:00,Wednesday,2021-11-14''"]
      phases_stay_complementary
        [of False True "''03:15''" "stored None (Some ''03:15'')" _ _ _ _ "''03:16''" 1]
      p q m c h
    by simp
qed


section \<open>Catching up after a sync\<close>










section \<open>The bit classifier\<close>

text \<open>
  Claim C5. A window whose measured pulse duration is below the noise threshold of
  40 ms, or exactly on it, yields no bit and leaves the bit index unchanged. At the
  start of a cell, a duration above the noise threshold and at most the split threshold
  of 180 ms (the threshold itself included) appends the bit 0 and advances the bit
  index; a duration above the split threshold appends the bit 1 and advances the bit
  index. The classifier is a function of the window, so the boundary cases come out
  the same way every time.
\<close>

theorem classify_by_duration:
  "(duration_ms a \<le> noisethreshms
      \<longrightarrow> computeTime_classify a (timeInfo, bitNum) = (timeInfo, bitNum))
   \<and> (cell_start a \<and> noisethreshms < duration_ms a \<and> duration_ms a \<le> zerothreshms
      \<longrightarrow> computeTime_classify a (timeInfo, bitNum) = (timeInfo @ [0], bitNum + 1))
   \<and> (cell_start a \<and> zerothreshms < duration_ms a
      \<longrightarrow> computeTime_classify a (timeInfo, bitNum) = (timeInfo @ [1], bitNum + 1))"
proof -
  have n: "(real_of_int (sum_list a)
             > 1000 / real_of_int samplespeed * real_of_int noisethreshms / 1000)
           = (noisethreshms < duration_ms a)"
    by (simp add: samplespeed_def noisethreshms_def duration_ms_def)
  have z: "(real_of_int (sum_list a)
             \<le> 1000 / real_of_int samplespeed * real_of_int zerothreshms / 1000)
           = (duration_ms a \<le> zerothreshms)"
    by (simp add: samplespeed_def zerothreshms_def duration_ms_def)
  have t: "noisethreshms < zerothreshms" by (simp add: noisethreshms_def zerothreshms_def)
  show ?thesis
    unfolding computeTime_classify_def n z cell_start_def using t by auto
qed

theorem classify_by_duration_witness:
  "computeTime_classify (replicate 70 0) ([], 0) = ([], 0)
   \<and> computeTime_classify (0 # replicate 8 1 @ replicate 61 0) ([], 0) = ([], 0)
   \<and> computeTime_classify (0 # replicate 9 1 @ replicate 60 0) ([], 0) = ([0], 1)
   \<and> computeTime_classify (0 # replicate 36 1 @ replicate 33 0) ([], 0) = ([0], 1)
   \<and> computeTime_classify (0 # replicate 37 1 @ replicate 32 0) ([], 0) = ([1], 1)"
proof -
  have h1: "duration_ms (replicate 70 0) \<le> noisethreshms"
    by code_simp
  have h2: "duration_ms (0 # replicate 8 1 @ replicate 61 0) \<le> noisethreshms"
    by code_simp
  have h3: "cell_start (0 # replicate 9 1 @ replicate 60 0)
            \<and> noisethreshms < duration_ms (0 # replicate 9 1 @ replicate 60 0)
            \<and> duration_ms (0 # replicate 9 1 @ replicate 60 0) \<le> zerothreshms"
    by code_simp
  have h4: "cell_start (0 # replicate 36 1 @ replicate 33 0)
            \<and> noisethreshms < duration_ms (0 # replicate 36 1 @ replicate 33 0)
            \<and> duration_ms (0 # replicate 36 1 @ replicate 33 0) \<le> zerothreshms"
    by code_simp
  have h5: "cell_start (0 # replicate 37 1 @ replicate 32 0)
            \<and> zerothreshms < duration_ms (0 # replicate 37 1 @ replicate 32 0)"
    by code_simp
  show ?thesis
    using classify_by_duration [of "replicate 70 0" "[]" 0]
      classify_by_duration [of "0 # replicate 8 1 @ replicate 61 0" "[]" 0]
      classify_by_duration [of "0 # replicate 9 1 @ replicate 60 0" "[]" 0]
      classify_by_duration [of "0 # replicate 36 1 @ replicate 33 0" "[]" 0]
      classify_by_duration [of "0 # replicate 37 1 @ replicate 32 0" "[]" 0]
      h1 h2 h3 h4 h5
    by simp
qed

section \<open>The frame decoder\<close>

text \<open>The loop hands \<open>computeTime_frame\<close> a list of 59 bits.\<close>

lemma classify_keeps_bits:
  assumes "length (fst st) = snd st" "set (fst st) \<subseteq> {0, 1}"
  shows "length (fst (computeTime_classify a st)) = snd (computeTime_classify a st)
         \<and> set (fst (computeTime_classify a st)) \<subseteq> {0, 1}"
  using assms by (cases st) (auto simp add: computeTime_classify_def)

lemma computeTime_loop_frame:
  assumes "computeTime_loop vs a st = Some r" "length (fst st) = snd st"
    "set (fst st) \<subseteq> {0, 1}"
  shows "\<exists>f. length f = 59 \<and> set f \<subseteq> {0, 1} \<and> r = computeTime_frame f"
  using assms
proof (induction vs arbitrary: a st)
  case Nil
  then show ?case by simp
next
  case (Cons v vs)
  let ?a = "tl a @ [v]"
  let ?st = "computeTime_classify ?a st"
  note k = classify_keeps_bits [OF Cons.prems(2,3), of ?a]
  show ?case
  proof (cases "snd ?st = 59")
    case True
    then have "r = computeTime_frame (fst ?st)" using Cons.prems(1) by (simp add: Let_def)
    then show ?thesis using k True by auto
  next
    case False
    then have "computeTime_loop vs ?a ?st = Some r"
      using Cons.prems(1) by (simp add: Let_def)
    then show ?thesis using Cons.IH k by blast
  qed
qed

lemma computeTime_returns_frame:
  assumes "computeTime vs = Some r"
  shows "\<exists>f. length f = 59 \<and> set f \<subseteq> {0, 1} \<and> r = computeTime_frame f"
  using computeTime_loop_frame [of vs "replicate samples 0" "([], 0)" r] assms
  by (simp add: computeTime_def)

lemma slice_nth:
  assumes "j \<le> length xs"
  shows "slice i j xs = map ((!) xs) [i..<j]"
  using assms by (auto intro!: nth_equalityI simp add: slice_def)

text \<open>
  Claim C3. A frame that violates a marker bit (bit 0 is not 0, or bit 20 is not 1),
  or has an odd sum in one of the three parity groups, or has neither bit 17 nor bit 18
  set, makes the decoder return the failure value \<open>'failed'\<close>: no field is produced.
\<close>

theorem frame_check_failure:
  assumes "timeInfo ! 0 \<noteq> 0 \<or> timeInfo ! 20 \<noteq> 1
           \<or> odd (sum_list (slice 21 29 timeInfo))
           \<or> odd (sum_list (slice 29 36 timeInfo))
           \<or> odd (sum_list (slice 36 59 timeInfo))
           \<or> (timeInfo ! 17 \<noteq> 1 \<and> timeInfo ! 18 \<noteq> 1)"
  shows "computeTime_fields timeInfo = None \<and> computeTime_frame timeInfo = ''failed''"
proof -
  have "computeTime_fields timeInfo = None"
    using assms by (auto simp add: computeTime_fields_def Let_def odd_iff_mod_2_eq_one)
  then show ?thesis by (simp add: computeTime_frame_def)
qed

theorem frame_check_failure_witness:
  "computeTime_frame frame_no_season = ''failed''
   \<and> computeTime_frame (frame_all_ones [0 := 1]) = ''failed''
   \<and> computeTime_frame (frame_all_ones [20 := 0]) = ''failed''
   \<and> computeTime_frame (frame_all_ones [28 := 0]) = ''failed''
   \<and> computeTime_frame (frame_all_ones [35 := 1]) = ''failed''
   \<and> computeTime_frame (frame_all_ones [58 := 1]) = ''failed''"
proof -
  have h1: "frame_no_season ! 17 \<noteq> 1 \<and> frame_no_season ! 18 \<noteq> 1" by code_simp
  have h2: "(frame_all_ones [0 := 1]) ! 0 \<noteq> 0" by code_simp
  have h3: "(frame_all_ones [20 := 0]) ! 20 \<noteq> 1" by code_simp
  have h4: "odd (sum_list (slice 21 29 (frame_all_ones [28 := 0])))" by code_simp
  have h5: "odd (sum_list (slice 29 36 (frame_all_ones [35 := 1])))" by code_simp
  have h6: "odd (sum_list (slice 36 59 (frame_all_ones [58 := 1])))" by code_simp
  show ?thesis
    using frame_check_failure [of frame_no_season]
      frame_check_failure [of "frame_all_ones [0 := 1]"]
      frame_check_failure [of "frame_all_ones [20 := 0]"]
      frame_check_failure [of "frame_all_ones [28 := 0]"]
      frame_check_failure [of "frame_all_ones [35 := 1]"]
      frame_check_failure [of "frame_all_ones [58 := 1]"]
      h1 h2 h3 h4 h5 h6
    by blast
qed

lemma fields_Some:
  assumes "computeTime_fields f = Some d"
  shows "minute d = f ! 21 + 2 * f ! 22 + 4 * f ! 23 + 8 * f ! 24 + 10 * f ! 25 + 20 * f ! 26
                      + 40 * f ! 27"
    and "stunde d = f ! 29 + 2 * f ! 30 + 4 * f ! 31 + 8 * f ! 32 + 10 * f ! 33 + 20 * f ! 34"
    and "tag d = f ! 36 + 2 * f ! 37 + 4 * f ! 38 + 8 * f ! 39 + 10 * f ! 40 + 20 * f ! 41"
    and "wochentag d = f ! 42 + 2 * f ! 43 + 4 * f ! 44"
    and "monat d = f ! 45 + 2 * f ! 46 + 4 * f ! 47 + 8 * f ! 48 + 10 * f ! 49"
    and "jahr d = f ! 50 + 2 * f ! 51 + 4 * f ! 52 + 8 * f ! 53 + 10 * f ! 54 + 20 * f ! 55
                    + 40 * f ! 56 + 80 * f ! 57"
  using assms by (auto simp add: computeTime_fields_def Let_def split: if_splits)

text \<open>
  Claim C7, as amended. The decoder checks markers, parities and the daylight-saving
  bits only; it compares no field with a calendar range. A successfully decoded time
  has every field within the range of its BCD weights: minute 0 to 85, hour 0 to 45,
  day 0 to 45, weekday 0 to 7, month 0 to 25, year 0 to 165.
\<close>

theorem decoded_field_ranges:
  assumes "length timeInfo = 59" "set timeInfo \<subseteq> {0, 1}"
    and "computeTime_fields timeInfo = Some d"
  shows "0 \<le> minute d \<and> minute d \<le> 85 \<and> 0 \<le> stunde d \<and> stunde d \<le> 45
         \<and> 0 \<le> tag d \<and> tag d \<le> 45 \<and> 0 \<le> wochentag d \<and> wochentag d \<le> 7
         \<and> 0 \<le> monat d \<and> monat d \<le> 25 \<and> 0 \<le> jahr d \<and> jahr d \<le> 165"
proof -
  have b: "0 \<le> timeInfo ! i \<and> timeInfo ! i \<le> 1" if "i < 59" for i
  proof -
    have "timeInfo ! i \<in> set timeInfo" using that assms(1) by simp
    then show ?thesis using assms(2) by auto
  qed
  note f = fields_Some [OF assms(3)]
  have mi: "0 \<le> minute d \<and> minute d \<le> 85"
    unfolding f(1) using b [of 21] b [of 22] b [of 23] b [of 24] b [of 25] b [of 26] b [of 27]
    by simp
  have st: "0 \<le> stunde d \<and> stunde d \<le> 45"
    unfolding f(2) using b [of 29] b [of 30] b [of 31] b [of 32] b [of 33] b [of 34]
    by simp
  have ta: "0 \<le> tag d \<and> tag d \<le> 45"
    unfolding f(3) using b [of 36] b [of 37] b [of 38] b [of 39] b [of 40] b [of 41]
    by simp
  have wo: "0 \<le> wochentag d \<and> wochentag d \<le> 7"
    unfolding f(4) using b [of 42] b [of 43] b [of 44]
    by simp
  have mo: "0 \<le> monat d \<and> monat d \<le> 25"
    unfolding f(5) using b [of 45] b [of 46] b [of 47] b [of 48] b [of 49]
    by simp
  have ja: "0 \<le> jahr d \<and> jahr d \<le> 165"
    unfolding f(6)
    using b [of 50] b [of 51] b [of 52] b [of 53] b [of 54] b [of 55] b [of 56] b [of 57]
    by simp
  show ?thesis using mi st ta wo mo ja by blast
qed

theorem decoded_field_ranges_witness:
  "minute \<lparr>minute = 85, stunde = 45, tag = 45, wochentag = 7, monat = 25, jahr = 165\<rparr> \<le> 85
   \<and> computeTime_fields frame_all_ones
       = Some \<lparr>minute = 85, stunde = 45, tag = 45, wochentag = 7, monat = 25, jahr = 165\<rparr>"
proof -
  have h: "length frame_all_ones = 59" "set frame_all_ones \<subseteq> {0, 1}"
    "computeTime_fields frame_all_ones
       = Some \<lparr>minute = 85, stunde = 45, tag = 45, wochentag = 7, monat = 25, jahr = 165\<rparr>"
    by code_simp+
  show ?thesis
    using decoded_field_ranges [OF h] h(3) by simp
qed

text \<open>
  The claim as stated fails. The frame with every time bit set passes all checks and
  decodes to minute 85, hour 45, day 45, month 25, year 165; the frame with every time
  bit clear passes them too and decodes to day 0, weekday 0 and month 0.
\<close>

theorem decoded_field_ranges_counterexample:
  "computeTime_fields frame_all_ones
     = Some \<lparr>minute = 85, stunde = 45, tag = 45, wochentag = 7, monat = 25, jahr = 165\<rparr>
   \<and> computeTime_frame frame_all_ones = ''45:85:00,Sunday,2165-25-45''
   \<and> computeTime_fields frame_all_zeros
     = Some \<lparr>minute = 0, stunde = 0, tag = 0, wochentag = 0, monat = 0, jahr = 0\<rparr>
   \<and> computeTime_frame frame_all_zeros = ''00:00:00,Invalid day of week,2000-00-00''"
  by code_simp

section \<open>Decoding what was encoded\<close>

lemma str_nat_hd: "str_nat n \<noteq> [] \<and> hd (str_nat n) \<in> set ''0123456789''"
proof (induction n rule: str_nat.induct)
  case (1 n)
  show ?case
  proof (cases "n < 10")
    case True
    then have "digit_char n \<in> set ''0123456789''"
      unfolding digit_char_def by (intro nth_mem) simp
    then show ?thesis using True by (simp add: str_nat.simps [of n])
  next
    case False
    then show ?thesis using 1 by (simp add: str_nat.simps [of n])
  qed
qed

lemma str_int_hd: "str_int i \<noteq> [] \<and> hd (str_int i) \<noteq> CHR ''f''"
  using str_nat_hd [of "nat i"] by (auto simp add: str_int_def)

lemma radiotime_string_not_failed: "radiotime_string d \<noteq> ''failed''"
proof -
  let ?s = "twodigits_str (str_int (stunde d))"
  have "?s \<noteq> [] \<and> hd ?s \<noteq> CHR ''f''"
    using str_int_hd [of "stunde d"] by (simp add: twodigits_str_def)
  then have "hd (radiotime_string d) \<noteq> CHR ''f''"
    by (simp add: radiotime_string_def)
  then show ?thesis by auto
qed

lemma bcd_fields:
  assumes "length f = 59"
  shows "bcd_field f 21 7 = f ! 21 + 2 * f ! 22 + 4 * f ! 23 + 8 * f ! 24 + 10 * f ! 25
                              + 20 * f ! 26 + 40 * f ! 27"
    and "bcd_field f 29 6 = f ! 29 + 2 * f ! 30 + 4 * f ! 31 + 8 * f ! 32 + 10 * f ! 33
                              + 20 * f ! 34"
    and "bcd_field f 36 6 = f ! 36 + 2 * f ! 37 + 4 * f ! 38 + 8 * f ! 39 + 10 * f ! 40
                              + 20 * f ! 41"
    and "bcd_field f 42 3 = f ! 42 + 2 * f ! 43 + 4 * f ! 44"
    and "bcd_field f 45 5 = f ! 45 + 2 * f ! 46 + 4 * f ! 47 + 8 * f ! 48 + 10 * f ! 49"
    and "bcd_field f 50 8 = f ! 50 + 2 * f ! 51 + 4 * f ! 52 + 8 * f ! 53 + 10 * f ! 54
                              + 20 * f ! 55 + 40 * f ! 56 + 80 * f ! 57"
  using assms by (simp_all add: bcd_field_def bcd_weights_def slice_nth upt_rec)

lemma below16_cases:
  assumes "0 \<le> u" "u < 16"
  shows "u = 0 \<or> u = 1 \<or> u = 2 \<or> u = 3 \<or> u = 4 \<or> u = 5 \<or> u = 6 \<or> u = 7 \<or> u = 8
         \<or> u = 9 \<or> u = 10 \<or> u = 11 \<or> u = 12 \<or> u = 13 \<or> u = 14 \<or> u = (15::int)"
  using assms by arith

lemma bits4:
  assumes "0 \<le> u" "u < 16"
  shows "bit_of u 0 + 2 * bit_of u 1 + 4 * bit_of u 2 + 8 * bit_of u 3 = u"
  using below16_cases [OF assms] by (elim disjE) (simp_all add: bit_of_def)

lemma bits3:
  assumes "0 \<le> u" "u < 8"
  shows "bit_of u 0 + 2 * bit_of u 1 + 4 * bit_of u 2 = u"
proof -
  have "u < 16" using assms by simp
  from below16_cases [OF assms(1) this] assms(2)
  show ?thesis by (elim disjE) (simp_all add: bit_of_def)
qed

lemma bits2:
  assumes "0 \<le> u" "u < 4"
  shows "bit_of u 0 + 2 * bit_of u 1 = u"
proof -
  have "u < 16" using assms by simp
  from below16_cases [OF assms(1) this] assms(2)
  show ?thesis by (elim disjE) (simp_all add: bit_of_def)
qed

lemma bits1:
  assumes "0 \<le> u" "u < 2"
  shows "bit_of u 0 = u"
proof -
  have "u < 16" using assms by simp
  from below16_cases [OF assms(1) this] assms(2)
  show ?thesis by (elim disjE) (simp_all add: bit_of_def)
qed

lemma parity_even: "(s + s mod 2) mod 2 \<noteq> (1::int)"
  by presburger


lemma parity_group: "sum_list (bs @ [parity_bit bs]) mod 2 \<noteq> 1"
  using parity_even [of "sum_list bs"] by (simp add: parity_bit_def)

lemma encode_frame_nth:
  "encode_frame t dst ! 0 = 0" "encode_frame t dst ! 20 = 1"
  "encode_frame t dst ! 17 = (if dst then 1 else 0)"
  "encode_frame t dst ! 18 = (if dst then 0 else 1)"
  "encode_frame t dst ! 21 = bit_of (minute t mod 10) 0"
  "encode_frame t dst ! 22 = bit_of (minute t mod 10) 1"
  "encode_frame t dst ! 23 = bit_of (minute t mod 10) 2"
  "encode_frame t dst ! 24 = bit_of (minute t mod 10) 3"
  "encode_frame t dst ! 25 = bit_of (minute t div 10) 0"
  "encode_frame t dst ! 26 = bit_of (minute t div 10) 1"
  "encode_frame t dst ! 27 = bit_of (minute t div 10) 2"
  "encode_frame t dst ! 29 = bit_of (stunde t mod 10) 0"
  "encode_frame t dst ! 30 = bit_of (stunde t mod 10) 1"
  "encode_frame t dst ! 31 = bit_of (stunde t mod 10) 2"
  "encode_frame t dst ! 32 = bit_of (stunde t mod 10) 3"
  "encode_frame t dst ! 33 = bit_of (stunde t div 10) 0"
  "encode_frame t dst ! 34 = bit_of (stunde t div 10) 1"
  "encode_frame t dst ! 36 = bit_of (tag t mod 10) 0"
  "encode_frame t dst ! 37 = bit_of (tag t mod 10) 1"
  "encode_frame t dst ! 38 = bit_of (tag t mod 10) 2"
  "encode_frame t dst ! 39 = bit_of (tag t mod 10) 3"
  "encode_frame t dst ! 40 = bit_of (tag t div 10) 0"
  "encode_frame t dst ! 41 = bit_of (tag t div 10) 1"
  "encode_frame t dst ! 42 = bit_of (wochentag t) 0"
  "encode_frame t dst ! 43 = bit_of (wochentag t) 1"
  "encode_frame t dst ! 44 = bit_of (wochentag t) 2"
  "encode_frame t dst ! 45 = bit_of (monat t mod 10) 0"
  "encode_frame t dst ! 46 = bit_of (monat t mod 10) 1"
  "encode_frame t dst ! 47 = bit_of (monat t mod 10) 2"
  "encode_frame t dst ! 48 = bit_of (monat t mod 10) 3"
  "encode_frame t dst ! 49 = bit_of (monat t div 10) 0"
  "encode_frame t dst ! 50 = bit_of (jahr t mod 10) 0"
  "encode_frame t dst ! 51 = bit_of (jahr t mod 10) 1"
  "encode_frame t dst ! 52 = bit_of (jahr t mod 10) 2"
  "encode_frame t dst ! 53 = bit_of (jahr t mod 10) 3"
  "encode_frame t dst ! 54 = bit_of (jahr t div 10) 0"
  "encode_frame t dst ! 55 = bit_of (jahr t div 10) 1"
  "encode_frame t dst ! 56 = bit_of (jahr t div 10) 2"
  "encode_frame t dst ! 57 = bit_of (jahr t div 10) 3"
  by (simp_all add: encode_frame_def Let_def)

lemma encode_frame_parity:
  "sum_list (slice 21 29 (encode_frame t dst)) mod 2 \<noteq> 1"
  "sum_list (slice 29 36 (encode_frame t dst)) mod 2 \<noteq> 1"
  "sum_list (slice 36 59 (encode_frame t dst)) mod 2 \<noteq> 1"
proof -
  let ?mi = "[bit_of (minute t mod 10) 0, bit_of (minute t mod 10) 1,
                bit_of (minute t mod 10) 2, bit_of (minute t mod 10) 3,
                bit_of (minute t div 10) 0, bit_of (minute t div 10) 1,
                bit_of (minute t div 10) 2]"
  let ?st = "[bit_of (stunde t mod 10) 0, bit_of (stunde t mod 10) 1,
                bit_of (stunde t mod 10) 2, bit_of (stunde t mod 10) 3,
                bit_of (stunde t div 10) 0, bit_of (stunde t div 10) 1]"
  let ?da = "[bit_of (tag t mod 10) 0, bit_of (tag t mod 10) 1,
                bit_of (tag t mod 10) 2, bit_of (tag t mod 10) 3,
                bit_of (tag t div 10) 0, bit_of (tag t div 10) 1,
                bit_of (wochentag t) 0, bit_of (wochentag t) 1, bit_of (wochentag t) 2,
                bit_of (monat t mod 10) 0, bit_of (monat t mod 10) 1,
                bit_of (monat t mod 10) 2, bit_of (monat t mod 10) 3,
                bit_of (monat t div 10) 0,
                bit_of (jahr t mod 10) 0, bit_of (jahr t mod 10) 1,
                bit_of (jahr t mod 10) 2, bit_of (jahr t mod 10) 3,
                bit_of (jahr t div 10) 0, bit_of (jahr t div 10) 1,
                bit_of (jahr t div 10) 2, bit_of (jahr t div 10) 3]"
  have "slice 21 29 (encode_frame t dst) = ?mi @ [parity_bit ?mi]"
    by (simp add: encode_frame_def Let_def slice_def)
  then show "sum_list (slice 21 29 (encode_frame t dst)) mod 2 \<noteq> 1"
    by (simp only: parity_group not_False_eq_True)
  have "slice 29 36 (encode_frame t dst) = ?st @ [parity_bit ?st]"
    by (simp add: encode_frame_def Let_def slice_def)
  then show "sum_list (slice 29 36 (encode_frame t dst)) mod 2 \<noteq> 1"
    by (simp only: parity_group not_False_eq_True)
  have "slice 36 59 (encode_frame t dst) = ?da @ [parity_bit ?da]"
    by (simp add: encode_frame_def Let_def slice_def)
  then show "sum_list (slice 36 59 (encode_frame t dst)) mod 2 \<noteq> 1"
    by (simp only: parity_group not_False_eq_True)
qed

lemma encode_frame_decodes:
  assumes "0 \<le> minute t" "minute t \<le> 59" "0 \<le> stunde t" "stunde t \<le> 23"
    and "1 \<le> tag t" "tag t \<le> 31" "1 \<le> wochentag t" "wochentag t \<le> 7"
    and "1 \<le> monat t" "monat t \<le> 12" "0 \<le> jahr t" "jahr t \<le> 99"
  shows "computeTime_fields (encode_frame t dst) = Some t"
proof -
  have dm: "v mod 10 + 10 * (v div 10) = v" for v :: int
    by simp
  have mi: "bit_of (minute t mod 10) 0 + 2 * bit_of (minute t mod 10) 1
              + 4 * bit_of (minute t mod 10) 2 + 8 * bit_of (minute t mod 10) 3
              + 10 * bit_of (minute t div 10) 0 + 20 * bit_of (minute t div 10) 1
              + 40 * bit_of (minute t div 10) 2 = minute t"
  proof -
    have u: "bit_of (minute t mod 10) 0 + 2 * bit_of (minute t mod 10) 1
              + 4 * bit_of (minute t mod 10) 2 + 8 * bit_of (minute t mod 10) 3
              = minute t mod 10"
      by (rule bits4) simp_all
    have z: "bit_of (minute t div 10) 0 + 2 * bit_of (minute t div 10) 1
              + 4 * bit_of (minute t div 10) 2 = minute t div 10"
      by (rule bits3) (use assms(1,2) in simp_all)
    show ?thesis using u z dm [of "minute t"] by linarith
  qed
  have st: "bit_of (stunde t mod 10) 0 + 2 * bit_of (stunde t mod 10) 1
              + 4 * bit_of (stunde t mod 10) 2 + 8 * bit_of (stunde t mod 10) 3
              + 10 * bit_of (stunde t div 10) 0 + 20 * bit_of (stunde t div 10) 1 = stunde t"
  proof -
    have u: "bit_of (stunde t mod 10) 0 + 2 * bit_of (stunde t mod 10) 1
              + 4 * bit_of (stunde t mod 10) 2 + 8 * bit_of (stunde t mod 10) 3
              = stunde t mod 10"
      by (rule bits4) simp_all
    have z: "bit_of (stunde t div 10) 0 + 2 * bit_of (stunde t div 10) 1 = stunde t div 10"
      by (rule bits2) (use assms(3,4) in simp_all)
    show ?thesis using u z dm [of "stunde t"] by linarith
  qed
  have ta: "bit_of (tag t mod 10) 0 + 2 * bit_of (tag t mod 10) 1
              + 4 * bit_of (tag t mod 10) 2 + 8 * bit_of (tag t mod 10) 3
              + 10 * bit_of (tag t div 10) 0 + 20 * bit_of (tag t div 10) 1 = tag t"
  proof -
    have u: "bit_of (tag t mod 10) 0 + 2 * bit_of (tag t mod 10) 1
              + 4 * bit_of (tag t mod 10) 2 + 8 * bit_of (tag t mod 10) 3
              = tag t mod 10"
      by (rule bits4) simp_all
    have z: "bit_of (tag t div 10) 0 + 2 * bit_of (tag t div 10) 1 = tag t div 10"
      by (rule bits2) (use assms(5,6) in simp_all)
    show ?thesis using u z dm [of "tag t"] by linarith
  qed
  have wo: "bit_of (wochentag t) 0 + 2 * bit_of (wochentag t) 1 + 4 * bit_of (wochentag t) 2
              = wochentag t"
    by (rule bits3) (use assms(7,8) in simp_all)
  have mo: "bit_of (monat t mod 10) 0 + 2 * bit_of (monat t mod 10) 1
              + 4 * bit_of (monat t mod 10) 2 + 8 * bit_of (monat t mod 10) 3
              + 10 * bit_of (monat t div 10) 0 = monat t"
  proof -
    have u: "bit_of (monat t mod 10) 0 + 2 * bit_of (monat t mod 10) 1
              + 4 * bit_of (monat t mod 10) 2 + 8 * bit_of (monat t mod 10) 3
              = monat t mod 10"
      by (rule bits4) simp_all
    have z: "bit_of (monat t div 10) 0 = monat t div 10"
      by (rule bits1) (use assms(9,10) in simp_all)
    show ?thesis using u z dm [of "monat t"] by linarith
  qed
  have ja: "bit_of (jahr t mod 10) 0 + 2 * bit_of (jahr t mod 10) 1
              + 4 * bit_of (jahr t mod 10) 2 + 8 * bit_of (jahr t mod 10) 3
              + 10 * bit_of (jahr t div 10) 0 + 20 * bit_of (jahr t div 10) 1
              + 40 * bit_of (jahr t div 10) 2 + 80 * bit_of (jahr t div 10) 3 = jahr t"
  proof -
    have u: "bit_of (jahr t mod 10) 0 + 2 * bit_of (jahr t mod 10) 1
              + 4 * bit_of (jahr t mod 10) 2 + 8 * bit_of (jahr t mod 10) 3
              = jahr t mod 10"
      by (rule bits4) simp_all
    have z: "bit_of (jahr t div 10) 0 + 2 * bit_of (jahr t div 10) 1
              + 4 * bit_of (jahr t div 10) 2 + 8 * bit_of (jahr t div 10) 3 = jahr t div 10"
      by (rule bits4) (use assms(11,12) in simp_all)
    show ?thesis using u z dm [of "jahr t"] by linarith
  qed
  show ?thesis
    unfolding computeTime_fields_def encode_frame_nth Let_def mi st ta wo mo ja
    by (simp add: encode_frame_parity)
qed

text \<open>
  Claim C2, as amended. For every 59-bit frame whose bit 0 is 0, whose bit 20 is 1,
  whose sums over the groups 21 to 28, 29 to 35 and 36 to 58 are even, and in which
  bit 17 or bit 18 is 1, the decoder succeeds: it does not return \<open>'failed'\<close>, and the
  decoded minute, hour, day, weekday, month and year are the BCD-weighted values of
  their bits. Encoding a known minute, hour, day, weekday, month and year in calendar
  range, with either daylight-saving flag, and decoding the frame gives these six
  fields back. The daylight-saving flag is checked and not returned.
\<close>

theorem frame_decode_roundtrip:
  "(length f = 59 \<and> f ! 0 = 0 \<and> f ! 20 = 1
      \<and> even (sum_list (slice 21 29 f)) \<and> even (sum_list (slice 29 36 f))
      \<and> even (sum_list (slice 36 59 f)) \<and> (f ! 17 = 1 \<or> f ! 18 = 1)
    \<longrightarrow> computeTime_fields f
          = Some \<lparr>minute = bcd_field f 21 7, stunde = bcd_field f 29 6, tag = bcd_field f 36 6,
                  wochentag = bcd_field f 42 3, monat = bcd_field f 45 5,
                  jahr = bcd_field f 50 8\<rparr>
        \<and> computeTime_frame f
          = radiotime_string
              \<lparr>minute = bcd_field f 21 7, stunde = bcd_field f 29 6, tag = bcd_field f 36 6,
               wochentag = bcd_field f 42 3, monat = bcd_field f 45 5,
               jahr = bcd_field f 50 8\<rparr>
        \<and> computeTime_frame f \<noteq> ''failed'')
   \<and> (0 \<le> minute t \<and> minute t \<le> 59 \<and> 0 \<le> stunde t \<and> stunde t \<le> 23
      \<and> 1 \<le> tag t \<and> tag t \<le> 31 \<and> 1 \<le> wochentag t \<and> wochentag t \<le> 7
      \<and> 1 \<le> monat t \<and> monat t \<le> 12 \<and> 0 \<le> jahr t \<and> jahr t \<le> 99
    \<longrightarrow> computeTime_fields (encode_frame t dst) = Some t
        \<and> computeTime_frame (encode_frame t dst) = radiotime_string t
        \<and> computeTime_frame (encode_frame t dst) \<noteq> ''failed'')"
proof (intro conjI impI)
  let ?d = "\<lparr>minute = bcd_field f 21 7, stunde = bcd_field f 29 6, tag = bcd_field f 36 6,
             wochentag = bcd_field f 42 3, monat = bcd_field f 45 5, jahr = bcd_field f 50 8\<rparr>"
  assume h: "length f = 59 \<and> f ! 0 = 0 \<and> f ! 20 = 1
      \<and> even (sum_list (slice 21 29 f)) \<and> even (sum_list (slice 29 36 f))
      \<and> even (sum_list (slice 36 59 f)) \<and> (f ! 17 = 1 \<or> f ! 18 = 1)"
  then have len: "length f = 59" by blast
  have par: "sum_list (slice 21 29 f) mod 2 \<noteq> 1" "sum_list (slice 29 36 f) mod 2 \<noteq> 1"
    "sum_list (slice 36 59 f) mod 2 \<noteq> 1"
    using h by (simp_all add: even_iff_mod_2_eq_zero)
  show 1: "computeTime_fields f = Some ?d"
    unfolding bcd_fields [OF len] computeTime_fields_def Let_def
    using h par by auto
  show "computeTime_frame f = radiotime_string ?d"
    by (simp only: computeTime_frame_def 1 option.case)
  then show "computeTime_frame f \<noteq> ''failed''"
    by (simp only: radiotime_string_not_failed not_False_eq_True)
next
  assume r: "0 \<le> minute t \<and> minute t \<le> 59 \<and> 0 \<le> stunde t \<and> stunde t \<le> 23
      \<and> 1 \<le> tag t \<and> tag t \<le> 31 \<and> 1 \<le> wochentag t \<and> wochentag t \<le> 7
      \<and> 1 \<le> monat t \<and> monat t \<le> 12 \<and> 0 \<le> jahr t \<and> jahr t \<le> 99"
  then show 2: "computeTime_fields (encode_frame t dst) = Some t"
    by (intro encode_frame_decodes) simp_all
  show "computeTime_frame (encode_frame t dst) = radiotime_string t"
    by (simp only: computeTime_frame_def 2 option.case)
  then show "computeTime_frame (encode_frame t dst) \<noteq> ''failed''"
    by (simp only: radiotime_string_not_failed not_False_eq_True)
qed

theorem frame_decode_roundtrip_witness:
  "computeTime_fields (encode_frame
       \<lparr>minute = 15, stunde = 13, tag = 14, wochentag = 3, monat = 11, jahr = 21\<rparr> True)
     = Some \<lparr>minute = 15, stunde = 13, tag = 14, wochentag = 3, monat = 11, jahr = 21\<rparr>
   \<and> computeTime_frame (encode_frame
       \<lparr>minute = 15, stunde = 13, tag = 14, wochentag = 3, monat = 11, jahr = 21\<rparr> True)
     = ''13:15:00,Wednesday,2021-11-14''
   \<and> bcd_field (encode_frame
       \<lparr>minute = 15, stunde = 13, tag = 14, wochentag = 3, monat = 11, jahr = 21\<rparr> True) 21 7
     = 15"
proof -
  let ?t = "\<lparr>minute = 15, stunde = 13, tag = 14, wochentag = 3, monat = 11, jahr = 21\<rparr>"
  let ?f = "encode_frame ?t True"
  have h: "length ?f = 59 \<and> ?f ! 0 = 0 \<and> ?f ! 20 = 1
      \<and> even (sum_list (slice 21 29 ?f)) \<and> even (sum_list (slice 29 36 ?f))
      \<and> even (sum_list (slice 36 59 ?f)) \<and> (?f ! 17 = 1 \<or> ?f ! 18 = 1)"
    by code_simp
  have s: "radiotime_string ?t = ''13:15:00,Wednesday,2021-11-14''"
    by code_simp
  have b: "bcd_field ?f 21 7 = 15" "bcd_field ?f 29 6 = 13" "bcd_field ?f 36 6 = 14"
    "bcd_field ?f 42 3 = 3" "bcd_field ?f 45 5 = 11" "bcd_field ?f 50 8 = 21"
    by code_simp+
  show ?thesis
    using frame_decode_roundtrip [of ?f ?t True] h s by (simp add: b)
qed

text \<open>
  The claim as stated fails. A frame can pass both marker checks and all three parity
  checks with neither daylight-saving bit set, and the decoder returns \<open>'failed'\<close>.
\<close>

theorem frame_decode_counterexample:
  "length frame_no_season = 59 \<and> frame_no_season ! 0 = 0 \<and> frame_no_season ! 20 = 1
   \<and> even (sum_list (slice 21 29 frame_no_season))
   \<and> even (sum_list (slice 29 36 frame_no_season))
   \<and> even (sum_list (slice 36 59 frame_no_season))
   \<and> computeTime_frame frame_no_season = ''failed''"
  by code_simp

end
